theory Spec2Isabelle
  imports Main "HOL-Library.Multiset"
begin

section \<open>Host language values\<close>

text \<open>
  The service of \<^verbatim>\<open>src/services/database.js\<close> is embedded over a small model of
  the JavaScript values it touches. A JavaScript string is a sequence of UTF-16 code
  units. A character here is a code unit below 256, that is a character of ISO 8859-1:
  \<open>CHR 0x41\<close> is \<open>A\<close> and \<open>CHR 0xC9\<close> is the capital E with acute accent. On such
  strings \<open>String.prototype.toLowerCase\<close> works character by character: the capital
  letters are \<open>A\<close> to \<open>Z\<close> (65 to 90), the accented capitals 192 to 214 and 216 to
  222 (215 is the multiplication sign), each has its small letter 32 places further, and
  every other character, the sharp s (223) and the small letters among them, is left as
  it is.
\<close>

definition isUpperCase :: "nat \<Rightarrow> bool" where
  "isUpperCase n = ((65 \<le> n \<and> n \<le> 90) \<or> (192 \<le> n \<and> n \<le> 214) \<or> (216 \<le> n \<and> n \<le> 222))"

definition toLowerCaseChar :: "char \<Rightarrow> char" where
  "toLowerCaseChar c =
     (let n = (of_char c :: nat) in if isUpperCase n then char_of (n + 32) else c)"

definition toLowerCase :: "string \<Rightarrow> string" where
  "toLowerCase s = map toLowerCaseChar s"

text \<open>
  \<open>s.includes(t)\<close>, here \<open>includes_str s t\<close>: \<open>t\<close> occurs in \<open>s\<close> at some
  position. The search tries every start position from the left.
\<close>

fun startsWith :: "string \<Rightarrow> string \<Rightarrow> bool" where
  "startsWith s [] = True"
| "startsWith [] (d # t) = False"
| "startsWith (c # s) (d # t) = (c = d \<and> startsWith s t)"

fun includes_str :: "string \<Rightarrow> string \<Rightarrow> bool" where
  "includes_str [] t = (t = [])"
| "includes_str (c # s) t = (startsWith (c # s) t \<or> includes_str s t)"

text \<open>
  A number is an integer or \<open>NaN\<close>. The integers of the program (identifiers, quantities,
  millisecond timestamps) stay far below \<open>2^53\<close>, where JavaScript numbers are exact.
  A comparison with \<open>NaN\<close> is false.
\<close>

datatype number = Num int | NaN

fun gt0 :: "number \<Rightarrow> bool" where
  "gt0 (Num n) = (n > 0)"
| "gt0 NaN = False"

text \<open>
  Prices and amounts are floating-point values that the service only passes on. Such a
  value is kept as the decimal text that denotes it: \<open>parseFloat s\<close> stands for the
  number JavaScript's \<open>parseFloat\<close> reads from \<open>s\<close>.
\<close>

datatype float = parseFloat string

text \<open>
  \<open>parseInt(string)\<close> with no radix, after ECMAScript: leading white space (tab, line
  feed, vertical tab, form feed, carriage return, space and the no-break space 160) is
  skipped, a sign is read, a prefix \<open>0x\<close> or \<open>0X\<close> switches to radix 16, and the
  longest prefix of digits of the radix is the value; with no digit the result is \<open>NaN\<close>.
\<close>

definition isWhiteSpace :: "char \<Rightarrow> bool" where
  "isWhiteSpace c = ((of_char c :: nat) \<in> {9, 10, 11, 12, 13, 32, 160})"

definition digitValue :: "char \<Rightarrow> nat option" where
  "digitValue c =
     (let n = (of_char c :: nat) in
      if 48 \<le> n \<and> n \<le> 57 then Some (n - 48)
      else if 97 \<le> n \<and> n \<le> 122 then Some (n - 87)
      else if 65 \<le> n \<and> n \<le> 90 then Some (n - 55)
      else None)"

fun radixDigits :: "nat \<Rightarrow> string \<Rightarrow> nat list" where
  "radixDigits R [] = []"
| "radixDigits R (c # cs) =
     (case digitValue c of
        None \<Rightarrow> []
      | Some d \<Rightarrow> if d < R then d # radixDigits R cs else [])"

definition stripSign :: "string \<Rightarrow> int \<times> string" where
  "stripSign s =
     (case s of
        [] \<Rightarrow> (1, s)
      | c # r \<Rightarrow> if c = CHR ''-'' then (- 1, r) else if c = CHR ''+'' then (1, r) else (1, s))"

definition stripPrefix :: "string \<Rightarrow> nat \<times> string" where
  "stripPrefix s =
     (if startsWith s ''0x'' \<or> startsWith s ''0X'' then (16, drop 2 s) else (10, s))"

definition parseInt :: "string \<Rightarrow> number" where
  "parseInt str =
     (let (sign, s1) = stripSign (dropWhile isWhiteSpace str);
          (R, s2) = stripPrefix s1;
          Z = radixDigits R s2
      in if Z = [] then NaN else Num (sign * int (foldl (\<lambda>a d. a * R + d) 0 Z)))"

text \<open>
  \<open>row[i]\<close> on an array: \<open>undefined\<close> (here \<open>None\<close>) beyond the end. \<open>ToString\<close> of
  \<open>undefined\<close> is the text \<open>undefined\<close>, which is what \<open>parseInt\<close> and \<open>parseFloat\<close>
  read when they are given a missing cell.
\<close>

definition at :: "'a list \<Rightarrow> nat \<Rightarrow> 'a option" where
  "at xs i = (if i < length xs then Some (xs ! i) else None)"

definition toString :: "string option \<Rightarrow> string" where
  "toString v = (case v of None \<Rightarrow> ''undefined'' | Some s \<Rightarrow> s)"

text \<open>The decimal text of an integer, as a template literal and \<open>JSON.stringify\<close> print it.\<close>

fun digits :: "nat \<Rightarrow> string" where
  "digits n = (if n < 10 then [char_of (48 + n)] else digits (n div 10) @ [char_of (48 + n mod 10)])"

declare digits.simps [simp del]

definition showInt :: "int \<Rightarrow> string" where
  "showInt i = (if i < 0 then CHR ''-'' # digits (nat (- i)) else digits (nat i))"


text \<open>
  \<open>JSON.stringify\<close> on the items of an order: an array of objects with the integer
  fields \<open>itemId\<close> and \<open>quantity\<close>, printed without white space.
\<close>

record order_line =
  line_itemId :: int
  line_quantity :: int

definition quoted :: "string \<Rightarrow> string" where
  "quoted s = CHR 0x22 # s @ [CHR 0x22]"

definition stringifyLine :: "order_line \<Rightarrow> string" where
  "stringifyLine l =
     ''{'' @ quoted ''itemId'' @ '':'' @ showInt (line_itemId l) @ '','' @
     quoted ''quantity'' @ '':'' @ showInt (line_quantity l) @ ''}''"

fun commaJoin :: "string list \<Rightarrow> string" where
  "commaJoin [] = []"
| "commaJoin [s] = s"
| "commaJoin (s # t # ss) = s @ '','' @ commaJoin (t # ss)"

definition JSON_stringify :: "order_line list \<Rightarrow> string" where
  "JSON_stringify ls = ''['' @ commaJoin (map stringifyLine ls) @ '']''"

text \<open>
  Reading the text back. \<open>readItems\<close> is not part of the service: it is the reader of
  the texts \<open>JSON_stringify\<close> prints, and serves to state that the text carries the
  items, every line with both its numbers and in its place. A number is read as its sign
  and its decimal digits; a line is read by skipping the ten characters up to the first
  number and the twelve characters between the numbers; the lines are read as long as a
  comma follows, at most as many as the first argument of \<open>readLines\<close> allows.
\<close>

definition isNumeric :: "char \<Rightarrow> bool" where
  "isNumeric c = (c = CHR ''-'' \<or> (48 \<le> (of_char c :: nat) \<and> (of_char c :: nat) \<le> 57))"

definition readNat :: "string \<Rightarrow> nat" where
  "readNat s = foldl (\<lambda>a c. 10 * a + ((of_char c :: nat) - 48)) 0 s"

definition readInt :: "string \<Rightarrow> int" where
  "readInt s =
     (case s of
        [] \<Rightarrow> 0
      | c # r \<Rightarrow> if c = CHR ''-'' then - int (readNat r) else int (readNat s))"

definition readLine :: "string \<Rightarrow> order_line \<times> string" where
  "readLine s =
     (let s1 = drop 10 s;
          s2 = drop 12 (dropWhile isNumeric s1);
          s3 = drop 1 (dropWhile isNumeric s2)
      in (\<lparr>line_itemId = readInt (takeWhile isNumeric s1),
           line_quantity = readInt (takeWhile isNumeric s2)\<rparr>, s3))"

fun readLines :: "nat \<Rightarrow> string \<Rightarrow> order_line list" where
  "readLines 0 s = []"
| "readLines (Suc n) s =
     (case readLine s of
        (l, r) \<Rightarrow>
          (case r of
             [] \<Rightarrow> [l]
           | c # r' \<Rightarrow> if c = CHR '','' then l # readLines n r' else [l]))"

definition readItems :: "string \<Rightarrow> order_line list" where
  "readItems s =
     (case s of
        [] \<Rightarrow> []
      | c # r \<Rightarrow> if startsWith r '']'' then [] else readLines (length r) r)"

text \<open>
  \<open>Array.prototype.find\<close> with a callback that may throw: the elements are tried from the
  left, the first one the callback accepts is returned, an exception of the callback ends
  the search, and \<open>undefined\<close> (here \<open>None\<close>) is returned when no element is accepted.
\<close>

datatype error =
    Error string
  | PostgrestError string
  | GaxiosError string
  | TypeError

fun find_js :: "('a \<Rightarrow> error + bool) \<Rightarrow> 'a list \<Rightarrow> error + 'a option" where
  "find_js p [] = Inr None"
| "find_js p (x # xs) =
     (case p x of
        Inl e \<Rightarrow> Inl e
      | Inr b \<Rightarrow> if b then Inr (Some x) else find_js p xs)"

section \<open>Records of the data model\<close>

text \<open>
  The field \<open>id\<close> of the source is \<open>item_id\<close>, \<open>faq_id\<close> and \<open>order_id\<close> here, and
  the field \<open>items\<close> of a stored order is \<open>order_items\<close>, since field names are global.
  A text field may be missing (\<open>undefined\<close>, or \<open>null\<close> in a table): \<open>None\<close>.
  An instant is kept as its count of milliseconds since the epoch; the ISO-8601 text that
  \<open>toISOString\<close> prints for it, and that the store reads back, is not spelled out.
\<close>

record inventory_item =
  item_id :: number
  name :: "string option"
  price :: float
  quantity :: number
  is_available :: bool

record faq =
  faq_id :: number
  question :: "string option"
  answer :: "string option"
  is_active :: bool

record orderData =
  customerPhone :: string
  customerName :: string
  items :: "order_line list"
  totalAmount :: float

record order_fields =
  customer_phone :: string
  customer_name :: string
  order_items :: string
  total_amount :: float
  status :: string
  created_at :: int

record order = order_fields +
  order_id :: int

section \<open>The process and the two stores\<close>

text \<open>
  The environment variables the constructor reads, and the service object it builds.
  A variable is truthy when it is set to a non-empty text.
\<close>

record env =
  SUPABASE_URL :: "string option"
  SUPABASE_ANON_KEY :: "string option"
  GOOGLE_SHEETS_API_KEY :: "string option"
  GOOGLE_SHEETS_SPREADSHEET_ID :: "string option"

datatype supabase_client = SupabaseClient string string

datatype sheets_client = SheetsClient string

record DatabaseService =
  supabase :: "supabase_client option"
  sheets :: "sheets_client option"
  spreadsheetId :: "string option"

definition truthy :: "string option \<Rightarrow> bool" where
  "truthy v = (case v of None \<Rightarrow> False | Some s \<Rightarrow> s \<noteq> [])"

text \<open>
  The world outside the process: the three tables of the relational store with the
  generator of order identifiers, the spreadsheet (the rows each range holds, a range with
  no data being absent, and the rows appended so far), a fault per store that makes every
  request to it fail, and the lines the logger has written.
\<close>

datatype cell = Text string | Number float | Instant int

datatype log_entry = LogError string error | LogInfo string | LogWarn string

record world =
  inventory_table :: "inventory_item list"
  orders_table :: "order list"
  faqs_table :: "faq list"
  orders_serial :: int
  relational_fault :: "error option"
  sheet_ranges :: "(string \<times> string list list) list"
  sheet_appended :: "(string \<times> cell list) list"
  sheet_fault :: "error option"
  console :: "log_entry list"

subsection \<open>The relational client\<close>

text \<open>
  The query builder of the relational client is a library outside the repository. Its
  answer \<open>{data, error}\<close> is a sum: \<open>Inl\<close> the error object, with no data, or \<open>Inr\<close>
  the data, with no error. \<open>select_eq\<close> is \<open>.select('*').eq(column, value)\<close>: the rows
  of the table that satisfy the equality, in the table's order. \<open>order_desc\<close> is
  \<open>.order(column, {ascending: false})\<close>. \<open>single\<close> is \<open>.single()\<close>: it answers with
  the row when the result has exactly one, and with the error \<open>PGRST116\<close> when the result
  has no row or several. \<open>update_eq\<close> is \<open>.update(values).eq(column, value)\<close> on the
  inventory table; it reports no error when no row matches. \<open>insert_select\<close> is
  \<open>.insert([row]).select()\<close> on the orders table: the store assigns the identifier and
  answers with the stored rows.
\<close>

definition select_eq :: "world \<Rightarrow> 'r list \<Rightarrow> ('r \<Rightarrow> bool) \<Rightarrow> error + 'r list" where
  "select_eq w table p =
     (case relational_fault w of Some e \<Rightarrow> Inl e | None \<Rightarrow> Inr (filter p table))"

definition order_desc :: "('r \<Rightarrow> int) \<Rightarrow> error + 'r list \<Rightarrow> error + 'r list" where
  "order_desc column r =
     (case r of Inl e \<Rightarrow> Inl e | Inr rows \<Rightarrow> Inr (rev (sort_key column rows)))"

definition single :: "error + 'r list \<Rightarrow> error + 'r" where
  "single r =
     (case r of
        Inl e \<Rightarrow> Inl e
      | Inr rows \<Rightarrow>
          (case rows of
             [] \<Rightarrow> Inl (PostgrestError ''PGRST116'')
           | x # rest \<Rightarrow> if rest = [] then Inr x else Inl (PostgrestError ''PGRST116'')))"

definition update_eq ::
  "world \<Rightarrow> (inventory_item \<Rightarrow> inventory_item) \<Rightarrow> (inventory_item \<Rightarrow> bool) \<Rightarrow> error option \<times> world" where
  "update_eq w values p =
     (case relational_fault w of
        Some e \<Rightarrow> (Some e, w)
      | None \<Rightarrow>
          (None, w\<lparr>inventory_table := map (\<lambda>r. if p r then values r else r) (inventory_table w)\<rparr>))"

definition insert_select :: "world \<Rightarrow> order_fields \<Rightarrow> (error + order list) \<times> world" where
  "insert_select w row =
     (case relational_fault w of
        Some e \<Rightarrow> (Inl e, w)
      | None \<Rightarrow>
          (let stored = order_fields.extend row (order.fields (orders_serial w))
           in (Inr [stored],
               w\<lparr>orders_table := orders_table w @ [stored],
                 orders_serial := orders_serial w + 1\<rparr>)))"

subsection \<open>The spreadsheet client\<close>

text \<open>
  \<open>values_get\<close> is \<open>spreadsheets.values.get\<close>: the request is rejected when the store
  is at fault or no spreadsheet identifier is given; otherwise the answer carries the rows
  of the range, each a list of cell texts, or no \<open>values\<close> field at all when the range
  holds no data. \<open>values_append\<close> is \<open>spreadsheets.values.append\<close>.
\<close>

definition values_get :: "world \<Rightarrow> string option \<Rightarrow> string \<Rightarrow> error + string list list option" where
  "values_get w sid rng =
     (case sheet_fault w of
        Some e \<Rightarrow> Inl e
      | None \<Rightarrow>
          (case sid of
             None \<Rightarrow> Inl (GaxiosError ''Missing required parameters: spreadsheetId'')
           | Some i \<Rightarrow> Inr (map_of (sheet_ranges w) rng)))"

definition values_append ::
  "world \<Rightarrow> string option \<Rightarrow> string \<Rightarrow> cell list list \<Rightarrow> error option \<times> world" where
  "values_append w sid rng rows =
     (case sheet_fault w of
        Some e \<Rightarrow> (Some e, w)
      | None \<Rightarrow>
          (case sid of
             None \<Rightarrow> (Some (GaxiosError ''Missing required parameters: spreadsheetId''), w)
           | Some i \<Rightarrow>
               (None, w\<lparr>sheet_appended := sheet_appended w @ map (Pair rng) rows\<rparr>)))"

section \<open>The service\<close>

text \<open>
  Every method returns its result, \<open>Inl\<close> a thrown error or \<open>Inr\<close> a value, with the
  world it leaves. \<open>caught\<close> is the handler each method ends with: it logs the error under
  the method's message and throws it again. The pictograph that starts each message of the
  source is left out of the logged text.
\<close>

definition logger :: "log_entry \<Rightarrow> world \<Rightarrow> world" where
  "logger l w = w\<lparr>console := console w @ [l]\<rparr>"

definition caught :: "string \<Rightarrow> (error + 'a) \<times> world \<Rightarrow> (error + 'a) \<times> world" where
  "caught msg r =
     (case r of
        (Inl e, w) \<Rightarrow> (Inl e, logger (LogError msg e) w)
      | (Inr v, w) \<Rightarrow> (Inr v, w))"

text \<open>
  \<open>createClient\<close> of the relational library refuses an empty address or key; the
  constructor only calls it with both truthy.
\<close>

definition createClient :: "string \<Rightarrow> string \<Rightarrow> error + supabase_client" where
  "createClient url key =
     (if url = [] then Inl (Error ''supabaseUrl is required.'')
      else if key = [] then Inl (Error ''supabaseKey is required.'')
      else Inr (SupabaseClient url key))"

definition constructor :: "env \<Rightarrow> error + DatabaseService" where
  "constructor e =
     (case (if truthy (SUPABASE_URL e) \<and> truthy (SUPABASE_ANON_KEY e)
            then map_sum id Some
                   (createClient (toString (SUPABASE_URL e)) (toString (SUPABASE_ANON_KEY e)))
            else Inr None) of
        Inl err \<Rightarrow> Inl err
      | Inr client \<Rightarrow>
          Inr \<lparr>supabase = client,
               sheets = (if truthy (GOOGLE_SHEETS_API_KEY e)
                         then Some (SheetsClient (toString (GOOGLE_SHEETS_API_KEY e)))
                         else None),
               spreadsheetId = GOOGLE_SHEETS_SPREADSHEET_ID e\<rparr>)"

subsection \<open>Inventory\<close>

definition inventoryRow :: "string list \<Rightarrow> inventory_item" where
  "inventoryRow row =
     \<lparr>item_id = parseInt (toString (at row 0)),
      name = at row 1,
      price = parseFloat (toString (at row 2)),
      quantity = parseInt (toString (at row 3)),
      is_available = (case at row 4 of None \<Rightarrow> False | Some s \<Rightarrow> toLowerCase s = ''true'')\<rparr>"

definition getInventory :: "DatabaseService \<Rightarrow> world \<Rightarrow> (error + inventory_item list) \<times> world" where
  "getInventory this w =
     caught ''Error fetching inventory:''
       (if supabase this \<noteq> None then
          (case select_eq w (inventory_table w) (\<lambda>r. is_available r = True) of
             Inl e \<Rightarrow> (Inl e, w)
           | Inr data \<Rightarrow> (Inr data, w))
        else if sheets this \<noteq> None then
          (case values_get w (spreadsheetId this) ''Inventory!A2:E1000'' of
             Inl e \<Rightarrow> (Inl e, w)
           | Inr vals \<Rightarrow>
               (Inr (case vals of
                       None \<Rightarrow> []
                     | Some rows \<Rightarrow> filter is_available (map inventoryRow rows)), w))
        else (Inl (Error ''No database configuration found''), w))"

definition nameMatches :: "string \<Rightarrow> inventory_item \<Rightarrow> error + bool" where
  "nameMatches itemName item =
     (case name item of
        None \<Rightarrow> Inl TypeError
      | Some n \<Rightarrow> Inr (includes_str (toLowerCase n) (toLowerCase itemName)))"

definition getItemByName ::
  "DatabaseService \<Rightarrow> string \<Rightarrow> world \<Rightarrow> (error + inventory_item option) \<times> world" where
  "getItemByName this itemName w =
     caught ''Error finding item by name:''
       (case getInventory this w of
          (Inl e, w1) \<Rightarrow> (Inl e, w1)
        | (Inr inventory, w1) \<Rightarrow> (find_js (nameMatches itemName) inventory, w1))"

definition updateInventoryQuantity ::
  "DatabaseService \<Rightarrow> int \<Rightarrow> int \<Rightarrow> world \<Rightarrow> (error + bool) \<times> world" where
  "updateInventoryQuantity this itemId newQuantity w =
     caught ''Error updating inventory:''
       (if supabase this \<noteq> None then
          (case update_eq w
                  (\<lambda>r. r\<lparr>quantity := Num newQuantity, is_available := (newQuantity > 0)\<rparr>)
                  (\<lambda>r. item_id r = Num itemId) of
             (Some e, w1) \<Rightarrow> (Inl e, w1)
           | (None, w1) \<Rightarrow>
               (Inr True,
                logger (LogInfo (''Updated inventory for item '' @ showInt itemId @
                                 '': quantity='' @ showInt newQuantity)) w1))
        else (Inr False, logger (LogWarn ''Google Sheets inventory update not implemented'') w))"

subsection \<open>Orders\<close>

text \<open>
  \<open>createOrder\<close> reads the clock twice: \<open>new Date()\<close> when it builds the order, and
  \<open>Date.now()\<close> after the spreadsheet has taken the row. The two readings are arguments.
\<close>

definition createOrder ::
  "DatabaseService \<Rightarrow> orderData \<Rightarrow> int \<Rightarrow> int \<Rightarrow> world \<Rightarrow> (error + order) \<times> world" where
  "createOrder this od newDate dateNow w =
     caught ''Error creating order:''
       (let ord = \<lparr>customer_phone = customerPhone od,
                   customer_name = customerName od,
                   order_items = JSON_stringify (items od),
                   total_amount = totalAmount od,
                   status = ''pending'',
                   created_at = newDate\<rparr>
        in if supabase this \<noteq> None then
             (case insert_select w ord of
                (Inl e, w1) \<Rightarrow> (Inl e, w1)
              | (Inr data, w1) \<Rightarrow>
                  (case data of
                     [] \<Rightarrow> (Inl TypeError, w1)
                   | d # ds \<Rightarrow>
                       (Inr d, logger (LogInfo (''Order created: '' @ showInt (order_id d))) w1)))
           else if sheets this \<noteq> None then
             (case values_append w (spreadsheetId this) ''Orders!A:G''
                     [[Text '''', Text (customer_phone ord), Text (customer_name ord),
                       Text (order_items ord), Number (total_amount ord),
                       Text (status ord), Instant (created_at ord)]] of
                (Some e, w1) \<Rightarrow> (Inl e, w1)
              | (None, w1) \<Rightarrow>
                  (Inr (order_fields.extend ord (order.fields dateNow)),
                   logger (LogInfo ''Order created in Google Sheets'') w1))
           else (Inl (Error ''No database configuration found''), w))"

definition getOrdersByPhone ::
  "DatabaseService \<Rightarrow> string \<Rightarrow> world \<Rightarrow> (error + order list) \<times> world" where
  "getOrdersByPhone this phone w =
     caught ''Error fetching orders:''
       (if supabase this \<noteq> None then
          (case order_desc created_at
                  (select_eq w (orders_table w) (\<lambda>r. customer_phone r = phone)) of
             Inl e \<Rightarrow> (Inl e, w)
           | Inr data \<Rightarrow> (Inr data, w))
        else (Inr [], logger (LogWarn ''Google Sheets order lookup not implemented'') w))"

definition getOrderById ::
  "DatabaseService \<Rightarrow> int \<Rightarrow> world \<Rightarrow> (error + order option) \<times> world" where
  "getOrderById this orderId w =
     caught ''Error fetching order by ID:''
       (if supabase this \<noteq> None then
          (case single (select_eq w (orders_table w) (\<lambda>r. order_id r = orderId)) of
             Inl e \<Rightarrow> (Inl e, w)
           | Inr data \<Rightarrow> (Inr (Some data), w))
        else (Inr None, w))"

subsection \<open>Questions and answers\<close>

definition faqRow :: "string list \<Rightarrow> faq" where
  "faqRow row =
     \<lparr>faq_id = parseInt (toString (at row 0)),
      question = at row 1,
      answer = at row 2,
      is_active = (case at row 3 of None \<Rightarrow> False | Some s \<Rightarrow> toLowerCase s = ''true'')\<rparr>"

definition getFAQs :: "DatabaseService \<Rightarrow> world \<Rightarrow> (error + faq list) \<times> world" where
  "getFAQs this w =
     caught ''Error fetching FAQs:''
       (if supabase this \<noteq> None then
          (case select_eq w (faqs_table w) (\<lambda>r. is_active r = True) of
             Inl e \<Rightarrow> (Inl e, w)
           | Inr data \<Rightarrow> (Inr data, w))
        else if sheets this \<noteq> None then
          (case values_get w (spreadsheetId this) ''FAQs!A2:D1000'' of
             Inl e \<Rightarrow> (Inl e, w)
           | Inr vals \<Rightarrow>
               (Inr (case vals of
                       None \<Rightarrow> []
                     | Some rows \<Rightarrow> filter is_active (map faqRow rows)), w))
        else (Inl (Error ''No database configuration found''), w))"

text \<open>
  The callback of \<open>searchFAQ\<close>: the answer is only read when the question does not
  contain the query.
\<close>

definition faqMatches :: "string \<Rightarrow> faq \<Rightarrow> error + bool" where
  "faqMatches query f =
     (case question f of
        None \<Rightarrow> Inl TypeError
      | Some q \<Rightarrow>
          if includes_str (toLowerCase q) (toLowerCase query) then Inr True
          else (case answer f of
                  None \<Rightarrow> Inl TypeError
                | Some a \<Rightarrow> Inr (includes_str (toLowerCase a) (toLowerCase query))))"

definition searchFAQ ::
  "DatabaseService \<Rightarrow> string \<Rightarrow> world \<Rightarrow> (error + faq option) \<times> world" where
  "searchFAQ this query w =
     caught ''Error searching FAQ:''
       (case getFAQs this w of
          (Inl e, w1) \<Rightarrow> (Inl e, w1)
        | (Inr faqs, w1) \<Rightarrow> (find_js (faqMatches query) faqs, w1))"

section \<open>Notions of the specification\<close>

text \<open>
  Which adapter a service object answers with: every method tests \<open>this.supabase\<close>
  first, so the relational adapter is the active one whenever its client exists, and the
  spreadsheet adapter is the active one when only the spreadsheet client exists.
\<close>

definition onRelational :: "DatabaseService \<Rightarrow> bool" where
  "onRelational this = (supabase this \<noteq> None)"

definition onSpreadsheet :: "DatabaseService \<Rightarrow> bool" where
  "onSpreadsheet this = (supabase this = None \<and> sheets this \<noteq> None)"





text \<open>The specification's "ordered newest-first by \<open>created_at\<close>".\<close>

definition newest_first :: "order list \<Rightarrow> bool" where
  "newest_first rows = sorted_wrt (\<lambda>a b. created_at a \<ge> created_at b) rows"

section \<open>Sample services and worlds\<close>

definition no_env :: env where
  "no_env = \<lparr>SUPABASE_URL = None, SUPABASE_ANON_KEY = None,
             GOOGLE_SHEETS_API_KEY = None, GOOGLE_SHEETS_SPREADSHEET_ID = None\<rparr>"

definition unconfigured_service :: DatabaseService where
  "unconfigured_service = \<lparr>supabase = None, sheets = None, spreadsheetId = None\<rparr>"

definition relational_service :: DatabaseService where
  "relational_service =
     \<lparr>supabase = Some (SupabaseClient ''https://shop.example'' ''anon''),
      sheets = None, spreadsheetId = None\<rparr>"

definition spreadsheet_service :: DatabaseService where
  "spreadsheet_service =
     \<lparr>supabase = None, sheets = Some (SheetsClient ''key''), spreadsheetId = Some ''sheet-1''\<rparr>"

definition burger :: inventory_item where
  "burger = \<lparr>item_id = Num 1, name = Some ''Cheese Burger'', price = parseFloat ''5.99'',
              quantity = Num 4, is_available = True\<rparr>"

definition fries :: inventory_item where
  "fries = \<lparr>item_id = Num 2, name = Some ''Fries'', price = parseFloat ''2.50'',
             quantity = Num 0, is_available = False\<rparr>"

definition sold_out_burger :: inventory_item where
  "sold_out_burger =
     \<lparr>item_id = Num 1, name = Some ''Cheese Burger'', price = parseFloat ''5.99'',
      quantity = Num 0, is_available = True\<rparr>"

definition hours_faq :: faq where
  "hours_faq = \<lparr>faq_id = Num 1, question = Some ''When are you open?'',
                 answer = Some ''From 9 to 5'', is_active = True\<rparr>"

definition returns_faq :: faq where
  "returns_faq = \<lparr>faq_id = Num 2, question = Some ''Can I send food back?'',
                   answer = Some ''Yes, with a full Refund'', is_active = True\<rparr>"

definition first_order :: order where
  "first_order =
     \<lparr>customer_phone = ''+1555'', customer_name = ''Ada'', order_items = ''[]'',
      total_amount = parseFloat ''4.00'', status = ''pending'', created_at = 1000,
      order_id = 1\<rparr>"

definition second_order :: order where
  "second_order =
     \<lparr>customer_phone = ''+1666'', customer_name = ''Bob'', order_items = ''[]'',
      total_amount = parseFloat ''7.50'', status = ''pending'', created_at = 2000,
      order_id = 2\<rparr>"

definition third_order :: order where
  "third_order =
     \<lparr>customer_phone = ''+1555'', customer_name = ''Ada'', order_items = ''[]'',
      total_amount = parseFloat ''9.25'', status = ''pending'', created_at = 3000,
      order_id = 3\<rparr>"

definition new_order :: orderData where
  "new_order =
     \<lparr>customerPhone = ''+1555'', customerName = ''Ada'',
      items = [\<lparr>line_itemId = 1, line_quantity = 2\<rparr>],
      totalAmount = parseFloat ''19.98''\<rparr>"

text \<open>
  A world with both stores filled. In the spreadsheet the burger's row says quantity \<open>0\<close>
  and availability \<open>TRUE\<close>; the last inventory row has only its first cell.
\<close>

definition shop :: world where
  "shop =
     \<lparr>inventory_table = [burger, fries],
      orders_table = [first_order, second_order, third_order],
      faqs_table = [hours_faq, returns_faq],
      orders_serial = 4,
      relational_fault = None,
      sheet_ranges =
        [(''Inventory!A2:E1000'',
          [[''1'', ''Cheese Burger'', ''5.99'', ''0'', ''TRUE''],
           [''2'', ''Fries'', ''2.50'', ''7'', ''false''],
           [''3'']]),
         (''FAQs!A2:D1000'',
          [[''1'', ''When are you open?'', ''From 9 to 5'', ''true''],
           [''2'', ''Can I send food back?'', ''Yes, with a full Refund'', ''True'']])],
      sheet_appended = [],
      sheet_fault = None,
      console = []\<rparr>"

text \<open>A world whose stores are reachable and hold nothing.\<close>

definition blank :: world where
  "blank =
     \<lparr>inventory_table = [], orders_table = [], faqs_table = [], orders_serial = 1,
      relational_fault = None, sheet_ranges = [], sheet_appended = [], sheet_fault = None,
      console = []\<rparr>"

text \<open>
  A relational store with four available items. Two names contain \<open>burger\<close>, neither
  is the first row, and the second row's name is \<open>CAF\<close>, the capital E with acute accent
  (201), \<open> au lait\<close>.
\<close>

definition salad :: inventory_item where
  "salad = \<lparr>item_id = Num 10, name = Some ''Green Salad'', price = parseFloat ''4.20'',
             quantity = Num 3, is_available = True\<rparr>"

definition cafe :: inventory_item where
  "cafe = \<lparr>item_id = Num 11, name = Some (''CAF'' @ [CHR 0xC9] @ '' au lait''),
            price = parseFloat ''2.80'', quantity = Num 9, is_available = True\<rparr>"

definition double_burger :: inventory_item where
  "double_burger =
     \<lparr>item_id = Num 12, name = Some ''Double BURGER'', price = parseFloat ''8.49'',
      quantity = Num 2, is_available = True\<rparr>"

definition menu :: world where
  "menu =
     \<lparr>inventory_table = [salad, cafe, burger, double_burger],
      orders_table = [], faqs_table = [], orders_serial = 1,
      relational_fault = None, sheet_ranges = [], sheet_appended = [], sheet_fault = None,
      console = []\<rparr>"

text \<open>An order of two lines, and the row the store makes of \<open>new_order\<close> at instant 2000.\<close>

definition two_lines :: orderData where
  "two_lines =
     \<lparr>customerPhone = ''+1777'', customerName = ''Cy'',
      items = [\<lparr>line_itemId = 1, line_quantity = 2\<rparr>, \<lparr>line_itemId = 12, line_quantity = - 3\<rparr>],
      totalAmount = parseFloat ''28.47''\<rparr>"

definition placed_order :: order where
  \<open>placed_order =
     \<lparr>customer_phone = ''+1555'', customer_name = ''Ada'',
      order_items = ''[{"itemId":1,"quantity":2}]'',
      total_amount = parseFloat ''19.98'', status = ''pending'', created_at = 2000,
      order_id = 4\<rparr>\<close>

text \<open>A world in which every request to either store fails.\<close>

definition offline :: world where
  "offline =
     \<lparr>inventory_table = [burger], orders_table = [first_order], faqs_table = [hours_faq],
      orders_serial = 2,
      relational_fault = Some (PostgrestError ''PGRST000''),
      sheet_ranges = [], sheet_appended = [],
      sheet_fault = Some (GaxiosError ''ECONNREFUSED''),
      console = []\<rparr>"

section \<open>Basic facts\<close>

lemma caught_Inr: "caught msg (Inr v, w) = (Inr v, w)"
  by (simp add: caught_def)

lemma caught_Inl: "caught msg (Inl e, w) = (Inl e, logger (LogError msg e) w)"
  by (simp add: caught_def)

lemma fst_caught: "fst (caught msg r) = fst r"
  by (cases r) (auto simp: caught_def split: sum.splits)

lemma onSpreadsheet_sample: "onSpreadsheet spreadsheet_service"
  by (simp add: onSpreadsheet_def spreadsheet_service_def)

lemma onRelational_sample: "onRelational relational_service"
  by (simp add: onRelational_def relational_service_def)

section \<open>Capability gaps of the spreadsheet adapter\<close>

text \<open>
  C5. On the spreadsheet adapter, for every phone, \<open>getOrdersByPhone\<close> returns the empty
  sequence and raises nothing (it logs a warning and touches no store), and for every
  identifier \<open>getOrderById\<close> returns the absence value and leaves the world as it was.
\<close>

theorem spreadsheet_order_lookups:
  assumes "onSpreadsheet this"
  shows "getOrdersByPhone this phone w =
           (Inr [], w\<lparr>console := console w @
              [LogWarn ''Google Sheets order lookup not implemented'']\<rparr>) \<and>
         getOrderById this orderId w = (Inr None, w)"
  using assms
  by (simp add: onSpreadsheet_def getOrdersByPhone_def getOrderById_def caught_Inr logger_def)

theorem spreadsheet_order_lookups_witness:
  "onSpreadsheet spreadsheet_service \<and>
   getOrdersByPhone spreadsheet_service ''+1555'' shop =
     (Inr [], shop\<lparr>console := console shop @
        [LogWarn ''Google Sheets order lookup not implemented'']\<rparr>) \<and>
   getOrderById spreadsheet_service 3 shop = (Inr None, shop)"
  using spreadsheet_order_lookups [OF onSpreadsheet_sample, of "''+1555''" shop 3]
    onSpreadsheet_sample
  by simp

text \<open>
  C10. On the spreadsheet adapter, when the answer to the range request carries no rows
  at all, \<open>getInventory\<close> and \<open>getFAQs\<close> each return the empty sequence, raise nothing
  and leave the world as it was.
\<close>

theorem spreadsheet_no_rows:
  assumes "onSpreadsheet this"
  shows "(values_get w (spreadsheetId this) ''Inventory!A2:E1000'' = Inr None \<longrightarrow>
            getInventory this w = (Inr [], w)) \<and>
         (values_get w (spreadsheetId this) ''FAQs!A2:D1000'' = Inr None \<longrightarrow>
            getFAQs this w = (Inr [], w))"
  using assms
  by (simp add: onSpreadsheet_def getInventory_def getFAQs_def caught_Inr)

theorem spreadsheet_no_rows_witness:
  "onSpreadsheet spreadsheet_service \<and>
   values_get blank (spreadsheetId spreadsheet_service) ''Inventory!A2:E1000'' = Inr None \<and>
   values_get blank (spreadsheetId spreadsheet_service) ''FAQs!A2:D1000'' = Inr None \<and>
   getInventory spreadsheet_service blank = (Inr [], blank) \<and>
   getFAQs spreadsheet_service blank = (Inr [], blank)"
proof -
  have inv: "values_get blank (spreadsheetId spreadsheet_service) ''Inventory!A2:E1000'' = Inr None"
    by (simp add: values_get_def blank_def spreadsheet_service_def)
  have faqs: "values_get blank (spreadsheetId spreadsheet_service) ''FAQs!A2:D1000'' = Inr None"
    by (simp add: values_get_def blank_def spreadsheet_service_def)
  show ?thesis
    using spreadsheet_no_rows [OF onSpreadsheet_sample, of blank] inv faqs onSpreadsheet_sample
    by simp
qed

section \<open>A service with no store configured\<close>

text \<open>
  C2. With no variable of the environment set, the constructor returns a service object
  with neither client. On it \<open>getInventory\<close>, \<open>getItemByName\<close>, \<open>createOrder\<close>,
  \<open>getFAQs\<close> and \<open>searchFAQ\<close> throw the error "No database configuration found", but
  \<open>updateInventoryQuantity\<close> returns \<open>false\<close>, \<open>getOrdersByPhone\<close> returns the empty
  sequence and \<open>getOrderById\<close> returns the absence value: these three throw nothing.
\<close>

theorem unconfigured_operations:
  "constructor no_env = Inr unconfigured_service \<and>
   fst (getInventory unconfigured_service w) = Inl (Error ''No database configuration found'') \<and>
   fst (getItemByName unconfigured_service itemName w) =
     Inl (Error ''No database configuration found'') \<and>
   fst (createOrder unconfigured_service od newDate dateNow w) =
     Inl (Error ''No database configuration found'') \<and>
   fst (getFAQs unconfigured_service w) = Inl (Error ''No database configuration found'') \<and>
   fst (searchFAQ unconfigured_service query w) =
     Inl (Error ''No database configuration found'') \<and>
   fst (updateInventoryQuantity unconfigured_service 1 5 w) = Inr False \<and>
   fst (getOrdersByPhone unconfigured_service ''+1555'' w) = Inr [] \<and>
   fst (getOrderById unconfigured_service 1 w) = Inr None"
  by (simp add: constructor_def no_env_def unconfigured_service_def truthy_def
      getInventory_def getItemByName_def createOrder_def getFAQs_def searchFAQ_def
      updateInventoryQuantity_def getOrdersByPhone_def getOrderById_def
      caught_Inl caught_Inr)

section \<open>Searching by text\<close>







text \<open>
  On the spreadsheet adapter every returned record has its texts: a row that passes the
  availability (or activity) filter has its last column, hence the columns before it.
\<close>

lemma inventoryRow_name: "is_available (inventoryRow row) \<Longrightarrow> \<exists>n. name (inventoryRow row) = Some n"
  by (auto simp: inventoryRow_def at_def split: if_splits)

lemma faqRow_texts:
  "is_active (faqRow row) \<Longrightarrow>
     (\<exists>q. question (faqRow row) = Some q) \<and> (\<exists>a. answer (faqRow row) = Some a)"
  by (auto simp: faqRow_def at_def split: if_splits)

lemma spreadsheet_items_named:
  assumes "onSpreadsheet this" and "fst (getInventory this w) = Inr inventory"
  shows "\<forall>item \<in> set inventory. name item \<noteq> None"
  using assms
  by (auto simp: onSpreadsheet_def getInventory_def fst_caught inventoryRow_name
      split: sum.splits option.splits)

lemma spreadsheet_faqs_texts:
  assumes "onSpreadsheet this" and "fst (getFAQs this w) = Inr faqs"
  shows "\<forall>f \<in> set faqs. question f \<noteq> None \<and> answer f \<noteq> None"
  using assms
  by (auto simp: onSpreadsheet_def getFAQs_def fst_caught faqRow_texts
      split: sum.splits option.splits)





section \<open>Inventory reads and writes\<close>

text \<open>
  C1, as stated, fails. On the spreadsheet adapter the availability flag is read from the
  fifth cell and the quantity from the fourth, and nothing compares them: the row
  \<open>1, Cheese Burger, 5.99, 0, TRUE\<close> is returned with \<open>is_available = true\<close> and
  \<open>quantity = 0\<close>.
\<close>

theorem getInventory_flag_not_quantity:
  "onSpreadsheet spreadsheet_service \<and>
   fst (getInventory spreadsheet_service shop) = Inr [sold_out_burger] \<and>
   quantity sold_out_burger = Num 0 \<and>
   is_available sold_out_burger \<noteq> gt0 (quantity sold_out_burger)"
proof -
  have "fst (getInventory spreadsheet_service shop) = Inr [sold_out_burger]"
    by code_simp
  then show ?thesis
    by (simp add: onSpreadsheet_sample sold_out_burger_def)
qed

lemma available_rows:
  "filter is_available (map inventoryRow rows) =
     map (\<lambda>row. \<lparr>item_id = parseInt (toString (at row 0)), name = at row 1,
                 price = parseFloat (toString (at row 2)),
                 quantity = parseInt (toString (at row 3)), is_available = True\<rparr>)
       (filter (\<lambda>row. \<exists>s. at row 4 = Some s \<and> toLowerCase s = ''true'') rows)"
  by (induction rows) (auto simp: inventoryRow_def split: option.splits)

text \<open>
  C1, amended. On either adapter, every item of the sequence \<open>getInventory\<close> returns has
  \<open>is_available = true\<close>, and its quantity is the stored one, which nothing compares with
  the flag. On the relational adapter the sequence is exactly the rows of the inventory
  table whose flag is set, in the table's order and as they are stored. On the spreadsheet
  adapter it has one item for every fetched row whose fifth cell is \<open>true\<close> in any
  letter case, in the rows' order, with \<open>parseInt\<close> of the first cell as its identifier,
  the second cell as its name, \<open>parseFloat\<close> of the third as its price and \<open>parseInt\<close>
  of the fourth as its quantity.
\<close>

theorem getInventory_only_available:
  assumes "fst (getInventory this w) = Inr inventory"
  shows "(\<forall>item \<in> set inventory. is_available item) \<and>
         (onRelational this \<longrightarrow> inventory = filter is_available (inventory_table w)) \<and>
         (onSpreadsheet this \<longrightarrow>
            (\<exists>vals. values_get w (spreadsheetId this) ''Inventory!A2:E1000'' = Inr vals \<and>
               inventory =
                 map (\<lambda>row. \<lparr>item_id = parseInt (toString (at row 0)), name = at row 1,
                             price = parseFloat (toString (at row 2)),
                             quantity = parseInt (toString (at row 3)), is_available = True\<rparr>)
                   (filter (\<lambda>row. \<exists>s. at row 4 = Some s \<and> toLowerCase s = ''true'')
                      (case vals of None \<Rightarrow> [] | Some rows \<Rightarrow> rows))))"
proof (intro conjI impI)
  show "\<forall>item \<in> set inventory. is_available item"
    using assms
    by (auto simp: getInventory_def fst_caught select_eq_def
        split: if_splits sum.splits option.splits)
next
  assume "onRelational this"
  with assms show "inventory = filter is_available (inventory_table w)"
    by (auto simp: onRelational_def getInventory_def fst_caught select_eq_def
        split: sum.splits option.splits)
next
  assume "onSpreadsheet this"
  with assms obtain vals where
    got: "values_get w (spreadsheetId this) ''Inventory!A2:E1000'' = Inr vals"
    and inv: "inventory =
      (case vals of None \<Rightarrow> [] | Some rows \<Rightarrow> filter is_available (map inventoryRow rows))"
    by (auto simp: onSpreadsheet_def getInventory_def fst_caught split: sum.splits)
  have "inventory =
      map (\<lambda>row. \<lparr>item_id = parseInt (toString (at row 0)), name = at row 1,
                  price = parseFloat (toString (at row 2)),
                  quantity = parseInt (toString (at row 3)), is_available = True\<rparr>)
        (filter (\<lambda>row. \<exists>s. at row 4 = Some s \<and> toLowerCase s = ''true'')
           (case vals of None \<Rightarrow> [] | Some rows \<Rightarrow> rows))"
    using inv by (cases vals) (simp_all add: available_rows)
  with got show "\<exists>vals. values_get w (spreadsheetId this) ''Inventory!A2:E1000'' = Inr vals \<and>
      inventory =
        map (\<lambda>row. \<lparr>item_id = parseInt (toString (at row 0)), name = at row 1,
                    price = parseFloat (toString (at row 2)),
                    quantity = parseInt (toString (at row 3)), is_available = True\<rparr>)
          (filter (\<lambda>row. \<exists>s. at row 4 = Some s \<and> toLowerCase s = ''true'')
             (case vals of None \<Rightarrow> [] | Some rows \<Rightarrow> rows))"
    by blast
qed

theorem getInventory_only_available_witness:
  "fst (getInventory relational_service shop) = Inr [burger] \<and>
   is_available burger \<and>
   [burger] = filter is_available (inventory_table shop) \<and>
   fst (getInventory relational_service menu) = Inr [salad, cafe, burger, double_burger] \<and>
   [salad, cafe, burger, double_burger] = filter is_available (inventory_table menu) \<and>
   fst (getInventory spreadsheet_service shop) = Inr [sold_out_burger] \<and>
   is_available sold_out_burger \<and>
   (\<exists>vals. values_get shop (spreadsheetId spreadsheet_service) ''Inventory!A2:E1000'' = Inr vals \<and>
      [sold_out_burger] =
        map (\<lambda>row. \<lparr>item_id = parseInt (toString (at row 0)), name = at row 1,
                    price = parseFloat (toString (at row 2)),
                    quantity = parseInt (toString (at row 3)), is_available = True\<rparr>)
          (filter (\<lambda>row. \<exists>s. at row 4 = Some s \<and> toLowerCase s = ''true'')
             (case vals of None \<Rightarrow> [] | Some rows \<Rightarrow> rows)))"
proof -
  have inv: "fst (getInventory relational_service shop) = Inr [burger]"
    by code_simp
  have all: "fst (getInventory relational_service menu) = Inr [salad, cafe, burger, double_burger]"
    by code_simp
  have sheet: "fst (getInventory spreadsheet_service shop) = Inr [sold_out_burger]"
    by code_simp
  note shop_rows = getInventory_only_available [OF inv]
  note menu_rows = getInventory_only_available [OF all]
  note sheet_rows = getInventory_only_available [OF sheet]
  have flag: "is_available burger"
    using shop_rows by simp
  have stored: "[burger] = filter is_available (inventory_table shop)"
    using shop_rows onRelational_sample by blast
  have stored_all: "[salad, cafe, burger, double_burger] = filter is_available (inventory_table menu)"
    using menu_rows onRelational_sample by blast
  have sheet_flag: "is_available sold_out_burger"
    using sheet_rows by simp
  have cells: "\<exists>vals. values_get shop (spreadsheetId spreadsheet_service) ''Inventory!A2:E1000'' = Inr vals \<and>
      [sold_out_burger] =
        map (\<lambda>row. \<lparr>item_id = parseInt (toString (at row 0)), name = at row 1,
                    price = parseFloat (toString (at row 2)),
                    quantity = parseInt (toString (at row 3)), is_available = True\<rparr>)
          (filter (\<lambda>row. \<exists>s. at row 4 = Some s \<and> toLowerCase s = ''true'')
             (case vals of None \<Rightarrow> [] | Some rows \<Rightarrow> rows))"
    using sheet_rows onSpreadsheet_sample by blast
  show ?thesis
    by (intro conjI) (fact inv flag stored all stored_all sheet sheet_flag cells)+
qed

text \<open>
  C4. For every item identifier and new quantity: on the relational adapter, when the
  store reports no error, \<open>updateInventoryQuantity\<close> returns \<open>true\<close> and leaves an
  inventory table of the same length in which every row with that identifier has the new
  quantity and \<open>is_available = (newQuantity > 0)\<close> and every other row is as before; on
  the spreadsheet adapter it returns \<open>false\<close>, raises nothing, and changes nothing in the
  world but the log, which gains a warning.
\<close>

theorem updateInventoryQuantity_effect:
  "(onRelational this \<and> relational_fault w = None \<longrightarrow>
      (\<exists>w'. updateInventoryQuantity this itemId newQuantity w = (Inr True, w') \<and>
            length (inventory_table w') = length (inventory_table w) \<and>
            (\<forall>k < length (inventory_table w).
               inventory_table w' ! k =
                 (if item_id (inventory_table w ! k) = Num itemId
                  then (inventory_table w ! k)
                         \<lparr>quantity := Num newQuantity, is_available := (newQuantity > 0)\<rparr>
                  else inventory_table w ! k)) \<and>
            orders_table w' = orders_table w \<and> faqs_table w' = faqs_table w)) \<and>
   (onSpreadsheet this \<longrightarrow>
      updateInventoryQuantity this itemId newQuantity w =
        (Inr False, w\<lparr>console := console w @
           [LogWarn ''Google Sheets inventory update not implemented'']\<rparr>))"
  by (simp add: onRelational_def onSpreadsheet_def updateInventoryQuantity_def update_eq_def
      caught_Inr logger_def)

theorem updateInventoryQuantity_effect_witness:
  "onRelational relational_service \<and> relational_fault shop = None \<and>
   fst (updateInventoryQuantity relational_service 2 5 shop) = Inr True \<and>
   inventory_table (snd (updateInventoryQuantity relational_service 2 5 shop)) =
     [burger, fries\<lparr>quantity := Num 5, is_available := True\<rparr>] \<and>
   (\<exists>w'. updateInventoryQuantity relational_service 2 5 shop = (Inr True, w') \<and>
         length (inventory_table w') = length (inventory_table shop) \<and>
         inventory_table w' ! 1 = (inventory_table shop ! 1)\<lparr>quantity := Num 5, is_available := True\<rparr> \<and>
         inventory_table w' ! 0 = inventory_table shop ! 0) \<and>
   onSpreadsheet spreadsheet_service \<and>
   updateInventoryQuantity spreadsheet_service 1 5 shop =
     (Inr False, shop\<lparr>console := console shop @
        [LogWarn ''Google Sheets inventory update not implemented'']\<rparr>)"
proof -
  have ok: "relational_fault shop = None"
    by (simp add: shop_def)
  have run: "fst (updateInventoryQuantity relational_service 2 5 shop) = Inr True"
    by code_simp
  have table: "inventory_table (snd (updateInventoryQuantity relational_service 2 5 shop)) =
      [burger, fries\<lparr>quantity := Num 5, is_available := True\<rparr>]"
    by code_simp
  have len: "length (inventory_table shop) = 2"
    and row0: "item_id (inventory_table shop ! 0) \<noteq> Num 2"
    and row1: "item_id (inventory_table shop ! 1) = Num 2"
    by (simp_all add: shop_def burger_def fries_def)
  from updateInventoryQuantity_effect [of relational_service shop 2 5] onRelational_sample ok
  obtain w' where
    w': "updateInventoryQuantity relational_service 2 5 shop = (Inr True, w')"
    and same: "length (inventory_table w') = length (inventory_table shop)"
    and rows: "\<forall>k < length (inventory_table shop).
       inventory_table w' ! k =
         (if item_id (inventory_table shop ! k) = Num 2
          then (inventory_table shop ! k)\<lparr>quantity := Num 5, is_available := (5 > (0::int))\<rparr>
          else inventory_table shop ! k)"
    by blast
  from rows len row0 row1 have
    "inventory_table w' ! 1 = (inventory_table shop ! 1)\<lparr>quantity := Num 5, is_available := True\<rparr>"
    "inventory_table w' ! 0 = inventory_table shop ! 0"
    by simp_all
  with w' same have relational:
    "\<exists>w'. updateInventoryQuantity relational_service 2 5 shop = (Inr True, w') \<and>
         length (inventory_table w') = length (inventory_table shop) \<and>
         inventory_table w' ! 1 = (inventory_table shop ! 1)\<lparr>quantity := Num 5, is_available := True\<rparr> \<and>
         inventory_table w' ! 0 = inventory_table shop ! 0"
    by blast
  have sheet: "updateInventoryQuantity spreadsheet_service 1 5 shop =
     (Inr False, shop\<lparr>console := console shop @
        [LogWarn ''Google Sheets inventory update not implemented'']\<rparr>)"
    using updateInventoryQuantity_effect [of spreadsheet_service shop 1 5] onSpreadsheet_sample
    by simp
  from onRelational_sample ok run table relational onSpreadsheet_sample sheet
  show ?thesis by simp
qed

section \<open>Looking an order up by its identifier\<close>

text \<open>
  C3, as stated, fails. The relational service asks for order \<open>7\<close> in a store that is
  reachable and has no such row: the single-row request answers with the error
  \<open>PGRST116\<close>, and \<open>getOrderById\<close> logs it and throws it. No absence value is returned.
\<close>

theorem getOrderById_no_row_throws:
  "onRelational relational_service \<and> relational_fault shop = None \<and>
   7 \<notin> order_id ` set (orders_table shop) \<and>
   getOrderById relational_service 7 shop =
     (Inl (PostgrestError ''PGRST116''),
      shop\<lparr>console := [LogError ''Error fetching order by ID:'' (PostgrestError ''PGRST116'')]\<rparr>)"
proof -
  have "7 \<notin> order_id ` set (orders_table shop)"
    by (simp add: shop_def first_order_def second_order_def third_order_def)
  moreover have "relational_fault shop = None"
    by (simp add: shop_def)
  moreover have "getOrderById relational_service 7 shop =
     (Inl (PostgrestError ''PGRST116''),
      shop\<lparr>console := [LogError ''Error fetching order by ID:'' (PostgrestError ''PGRST116'')]\<rparr>)"
    by code_simp
  ultimately show ?thesis using onRelational_sample by simp
qed

text \<open>
  C3, amended. On the relational adapter, for every identifier: when the store reports no
  error and exactly one row has the identifier, \<open>getOrderById\<close> returns that row and
  leaves the world as it was; when the store reports no error and no row has the
  identifier, the error \<open>PGRST116\<close> of the single-row request is logged and thrown; when
  the store fails with an error, that error is logged and thrown. The absence value is
  never returned on this adapter.
\<close>

theorem getOrderById_relational:
  assumes "onRelational this"
  shows "(relational_fault w = None \<and>
          filter (\<lambda>r. order_id r = orderId) (orders_table w) = [row] \<longrightarrow>
            getOrderById this orderId w = (Inr (Some row), w)) \<and>
         (relational_fault w = None \<and> orderId \<notin> order_id ` set (orders_table w) \<longrightarrow>
            getOrderById this orderId w =
              (Inl (PostgrestError ''PGRST116''),
               w\<lparr>console := console w @
                  [LogError ''Error fetching order by ID:'' (PostgrestError ''PGRST116'')]\<rparr>)) \<and>
         (relational_fault w = Some e \<longrightarrow>
            getOrderById this orderId w =
              (Inl e, w\<lparr>console := console w @ [LogError ''Error fetching order by ID:'' e]\<rparr>)) \<and>
         fst (getOrderById this orderId w) \<noteq> Inr None"
proof -
  have none: "filter (\<lambda>r. order_id r = orderId) (orders_table w) = []"
    if "orderId \<notin> order_id ` set (orders_table w)"
    using that by (auto simp: filter_empty_conv)
  have never: "fst (getOrderById this orderId w) \<noteq> Inr None"
    using assms
    by (auto simp: onRelational_def getOrderById_def fst_caught split: sum.splits)
  show ?thesis
    using assms none never
    by (auto simp: onRelational_def getOrderById_def select_eq_def single_def
        caught_Inr caught_Inl logger_def)
qed

theorem getOrderById_relational_witness:
  "onRelational relational_service \<and>
   getOrderById relational_service 3 shop = (Inr (Some third_order), shop) \<and>
   getOrderById relational_service 7 shop =
     (Inl (PostgrestError ''PGRST116''),
      shop\<lparr>console := console shop @
         [LogError ''Error fetching order by ID:'' (PostgrestError ''PGRST116'')]\<rparr>) \<and>
   getOrderById relational_service 1 offline =
     (Inl (PostgrestError ''PGRST000''),
      offline\<lparr>console := console offline @
         [LogError ''Error fetching order by ID:'' (PostgrestError ''PGRST000'')]\<rparr>) \<and>
   fst (getOrderById relational_service 3 shop) \<noteq> Inr None"
proof -
  have ok: "relational_fault shop = None"
    by (simp add: shop_def)
  have down: "relational_fault offline = Some (PostgrestError ''PGRST000'')"
    by (simp add: offline_def)
  have one: "filter (\<lambda>r. order_id r = 3) (orders_table shop) = [third_order]"
    by (simp add: shop_def first_order_def second_order_def third_order_def)
  have missing: "7 \<notin> order_id ` set (orders_table shop)"
    by (simp add: shop_def first_order_def second_order_def third_order_def)
  show ?thesis
    using getOrderById_relational [OF onRelational_sample, of shop 3 third_order]
      getOrderById_relational [OF onRelational_sample, of shop 7]
      getOrderById_relational [OF onRelational_sample,
        where w = offline and orderId = 1 and e = "PostgrestError ''PGRST000''"]
      onRelational_sample ok down one missing
    by simp
qed

section \<open>The text of the items\<close>

lemma digits_codes: "\<forall>c \<in> set (digits n). 48 \<le> (of_char c :: nat) \<and> (of_char c :: nat) \<le> 57"
proof (induction n rule: digits.induct)
  case (1 n)
  show ?case
  proof (cases "n < 10")
    case True
    then show ?thesis by (subst digits.simps) simp
  next
    case False
    have "n mod 10 < 10" by simp
    then have "48 + n mod 10 < 256" by linarith
    then have "(48 + n mod 10) mod 256 = 48 + n mod 10" by simp
    with False 1 show ?thesis by (subst digits.simps) simp
  qed
qed

lemma digits_not_empty: "digits n \<noteq> []"
  by (subst digits.simps) simp

lemma readNat_snoc: "readNat (s @ [c]) = 10 * readNat s + ((of_char c :: nat) - 48)"
  by (simp add: readNat_def)

lemma readNat_digits: "readNat (digits n) = n"
proof (induction n rule: digits.induct)
  case (1 n)
  show ?case
  proof (cases "n < 10")
    case True
    then show ?thesis by (subst digits.simps) (simp add: readNat_def)
  next
    case False
    have "n mod 10 < 10" by simp
    then have "48 + n mod 10 < 256" by linarith
    then have "(48 + n mod 10) mod 256 = 48 + n mod 10" by simp
    with False 1 show ?thesis by (subst digits.simps) (simp add: readNat_snoc)
  qed
qed

lemma digits_numeric: "\<forall>c \<in> set (digits n). isNumeric c \<and> c \<noteq> CHR ''-''"
  using digits_codes [of n] by (auto simp: isNumeric_def)

lemma showInt_numeric: "\<forall>c \<in> set (showInt i). isNumeric c"
  using digits_numeric by (auto simp: showInt_def isNumeric_def)

lemma readInt_showInt: "readInt (showInt i) = i"
proof (cases "i < 0")
  case True
  then show ?thesis by (simp add: showInt_def readInt_def readNat_digits)
next
  case False
  obtain c r where split: "digits (nat i) = c # r"
    using digits_not_empty [of "nat i"] by (cases "digits (nat i)") auto
  then have "c \<in> set (digits (nat i))" by simp
  with digits_numeric have "c \<noteq> CHR ''-''" by blast
  with False split readNat_digits [of "nat i"] show ?thesis
    by (simp add: showInt_def readInt_def)
qed

lemma takeWhile_numeric:
  "\<not> isNumeric d \<Longrightarrow> takeWhile isNumeric (showInt i @ d # s) = showInt i"
  using showInt_numeric [of i] by (simp add: takeWhile_append2)

lemma dropWhile_numeric:
  "\<not> isNumeric d \<Longrightarrow> dropWhile isNumeric (showInt i @ d # s) = d # s"
  using showInt_numeric [of i] by (simp add: dropWhile_append2)

lemma readLine_stringifyLine: "readLine (stringifyLine l @ rest) = (l, rest)"
proof -
  have comma: "\<not> isNumeric CHR '',''" and brace: "\<not> isNumeric CHR ''}''"
    by (simp_all add: isNumeric_def)
  show ?thesis
    by (cases l)
      (simp add: readLine_def stringifyLine_def quoted_def Let_def
        takeWhile_numeric [OF comma] dropWhile_numeric [OF comma]
        takeWhile_numeric [OF brace] dropWhile_numeric [OF brace] readInt_showInt)
qed

lemma stringifyLine_first: "\<exists>s. stringifyLine l = CHR ''{'' # s"
  by (simp add: stringifyLine_def)

lemma stringifyLine_not_empty: "stringifyLine l \<noteq> []"
  by (simp add: stringifyLine_def)

lemma readLines_commaJoin:
  "ls \<noteq> [] \<Longrightarrow> length ls \<le> n \<Longrightarrow>
     readLines n (commaJoin (map stringifyLine ls) @ CHR '']'' # rest) = ls"
proof (induction ls arbitrary: n)
  case Nil
  then show ?case by simp
next
  case (Cons l ls)
  from Cons.prems obtain m where n: "n = Suc m" and m: "length ls \<le> m"
    by (cases n) auto
  show ?case
  proof (cases ls)
    case Nil
    then show ?thesis by (simp add: n readLine_stringifyLine)
  next
    case (Cons l2 ls2)
    with Cons.IH [of m] m have
      "readLines m (commaJoin (map stringifyLine ls) @ CHR '']'' # rest) = ls"
      by simp
    with Cons show ?thesis by (simp add: n readLine_stringifyLine)
  qed
qed

lemma commaJoin_length: "\<forall>x \<in> set xs. x \<noteq> [] \<Longrightarrow> length xs \<le> length (commaJoin xs)"
proof (induction xs rule: commaJoin.induct)
  case 1
  show ?case by simp
next
  case (2 s)
  then show ?case by (cases s) simp_all
next
  case (3 s t ss)
  then show ?case by simp
qed

lemma commaJoin_first:
  "ls \<noteq> [] \<Longrightarrow> \<exists>s. commaJoin (map stringifyLine ls) = CHR ''{'' # s"
proof (cases ls)
  case Nil
  assume "ls \<noteq> []"
  with Nil show ?thesis by simp
next
  case (Cons l ls2)
  obtain s where s: "stringifyLine l = CHR ''{'' # s" using stringifyLine_first by blast
  show ?thesis
  proof (cases ls2)
    case Nil
    with Cons s show ?thesis by simp
  next
    case (Cons l2 ls3)
    with \<open>ls = l # ls2\<close> s show ?thesis by simp
  qed
qed

lemma readItems_JSON_stringify: "readItems (JSON_stringify ls) = ls"
proof (cases "ls = []")
  case True
  then show ?thesis by (simp add: readItems_def JSON_stringify_def)
next
  case False
  let ?body = "commaJoin (map stringifyLine ls)"
  obtain s where first: "?body = CHR ''{'' # s"
    using commaJoin_first [OF False] by blast
  have "\<forall>x \<in> set (map stringifyLine ls). x \<noteq> []"
    by (simp add: stringifyLine_not_empty)
  then have "length (map stringifyLine ls) \<le> length ?body"
    by (rule commaJoin_length)
  then have enough: "length ls \<le> length (?body @ '']'')" by simp
  have "readLines (length (?body @ '']'')) (?body @ CHR '']'' # []) = ls"
    using False enough by (rule readLines_commaJoin)
  moreover have "\<not> startsWith (?body @ '']'') '']''"
    by (simp add: first)
  ultimately show ?thesis
    by (simp add: readItems_def JSON_stringify_def)
qed

lemma JSON_stringify_inj: "JSON_stringify ls = JSON_stringify ls' \<Longrightarrow> ls = ls'"
  by (metis readItems_JSON_stringify)

section \<open>Creating and listing orders\<close>

lemma extend_fields:
  "customer_phone (order_fields.extend r (order.fields n)) = customer_phone r"
  "customer_name (order_fields.extend r (order.fields n)) = customer_name r"
  "order_items (order_fields.extend r (order.fields n)) = order_items r"
  "total_amount (order_fields.extend r (order.fields n)) = total_amount r"
  "status (order_fields.extend r (order.fields n)) = status r"
  "created_at (order_fields.extend r (order.fields n)) = created_at r"
  "order_id (order_fields.extend r (order.fields n)) = n"
  by (simp_all add: order_fields.defs order.defs)

text \<open>
  C8. For every order data: on the relational adapter, when the store reports no error,
  and on the spreadsheet adapter, when the append is accepted, \<open>createOrder\<close> returns an
  order with status \<open>pending\<close>, with \<open>created_at\<close> the clock reading taken at the call,
  with the caller's phone, name and amount, and with the items as their \<open>JSON.stringify\<close>
  text: a text from which the items are read back, line by line and number by number, so
  that no other sequence of items has the same text. On the relational adapter its
  identifier is the one the store generates, and the order is a row of the store
  afterwards; on the spreadsheet adapter its identifier is the second clock reading,
  \<open>Date.now()\<close>, and the appended row carries no identifier.
\<close>

theorem createOrder_result:
  "(onRelational this \<and> relational_fault w = None \<longrightarrow>
      (\<exists>ord. fst (createOrder this od newDate dateNow w) = Inr ord \<and>
         status ord = ''pending'' \<and> created_at ord = newDate \<and>
         order_items ord = JSON_stringify (items od) \<and>
         readItems (order_items ord) = items od \<and>
         (\<forall>ls. JSON_stringify ls = order_items ord \<longrightarrow> ls = items od) \<and>
         customer_phone ord = customerPhone od \<and> customer_name ord = customerName od \<and>
         total_amount ord = totalAmount od \<and>
         order_id ord = orders_serial w \<and>
         orders_table (snd (createOrder this od newDate dateNow w)) = orders_table w @ [ord])) \<and>
   (onSpreadsheet this \<and> sheet_fault w = None \<and> spreadsheetId this \<noteq> None \<longrightarrow>
      (\<exists>ord. fst (createOrder this od newDate dateNow w) = Inr ord \<and>
         status ord = ''pending'' \<and> created_at ord = newDate \<and>
         order_items ord = JSON_stringify (items od) \<and>
         readItems (order_items ord) = items od \<and>
         (\<forall>ls. JSON_stringify ls = order_items ord \<longrightarrow> ls = items od) \<and>
         customer_phone ord = customerPhone od \<and> customer_name ord = customerName od \<and>
         total_amount ord = totalAmount od \<and>
         order_id ord = dateNow \<and>
         sheet_appended (snd (createOrder this od newDate dateNow w)) =
           sheet_appended w @
             [(''Orders!A:G'',
               [Text '''', Text (customerPhone od), Text (customerName od),
                Text (JSON_stringify (items od)), Number (totalAmount od),
                Text ''pending'', Instant newDate])]))"
proof -
  have only: "\<forall>ls. JSON_stringify ls = JSON_stringify (items od) \<longrightarrow> ls = items od"
    by (simp add: JSON_stringify_inj)
  have relational: ?thesis if "supabase this \<noteq> None"
    using that only
    by (auto simp: onRelational_def onSpreadsheet_def createOrder_def insert_select_def
        Let_def caught_Inr logger_def extend_fields readItems_JSON_stringify)
  have sheet: ?thesis if "supabase this = None"
    using that only
    by (auto simp: onRelational_def onSpreadsheet_def createOrder_def values_append_def
        Let_def caught_Inr logger_def extend_fields readItems_JSON_stringify)
  from relational sheet show ?thesis by blast
qed

theorem createOrder_result_witness:
  \<open>onRelational relational_service \<and> relational_fault shop = None \<and>
   (\<exists>ord. fst (createOrder relational_service two_lines 5000 5003 shop) = Inr ord \<and>
      status ord = ''pending'' \<and> created_at ord = 5000 \<and>
      order_items ord = ''[{"itemId":1,"quantity":2},{"itemId":12,"quantity":-3}]'' \<and>
      readItems (order_items ord) =
        [\<lparr>line_itemId = 1, line_quantity = 2\<rparr>, \<lparr>line_itemId = 12, line_quantity = - 3\<rparr>] \<and>
      total_amount ord = parseFloat ''28.47'' \<and> order_id ord = 4) \<and>
   onSpreadsheet spreadsheet_service \<and> sheet_fault shop = None \<and>
   spreadsheetId spreadsheet_service \<noteq> None \<and>
   (\<exists>ord. fst (createOrder spreadsheet_service two_lines 5000 5003 shop) = Inr ord \<and>
      status ord = ''pending'' \<and> created_at ord = 5000 \<and>
      order_items ord = ''[{"itemId":1,"quantity":2},{"itemId":12,"quantity":-3}]'' \<and>
      readItems (order_items ord) =
        [\<lparr>line_itemId = 1, line_quantity = 2\<rparr>, \<lparr>line_itemId = 12, line_quantity = - 3\<rparr>] \<and>
      total_amount ord = parseFloat ''28.47'' \<and> order_id ord = 5003)\<close>
proof -
  have ok: "relational_fault shop = None" "sheet_fault shop = None" "orders_serial shop = 4"
    by (simp_all add: shop_def)
  have sid: "spreadsheetId spreadsheet_service \<noteq> None"
    by (simp add: spreadsheet_service_def)
  have json: \<open>JSON_stringify (items two_lines) =
      ''[{"itemId":1,"quantity":2},{"itemId":12,"quantity":-3}]''\<close>
    by code_simp
  have lines: "items two_lines =
      [\<lparr>line_itemId = 1, line_quantity = 2\<rparr>, \<lparr>line_itemId = 12, line_quantity = - 3\<rparr>]"
    and amount: "totalAmount two_lines = parseFloat ''28.47''"
    by (simp_all add: two_lines_def)
  have relational:
    \<open>\<exists>ord. fst (createOrder relational_service two_lines 5000 5003 shop) = Inr ord \<and>
      status ord = ''pending'' \<and> created_at ord = 5000 \<and>
      order_items ord = ''[{"itemId":1,"quantity":2},{"itemId":12,"quantity":-3}]'' \<and>
      readItems (order_items ord) =
        [\<lparr>line_itemId = 1, line_quantity = 2\<rparr>, \<lparr>line_itemId = 12, line_quantity = - 3\<rparr>] \<and>
      total_amount ord = parseFloat ''28.47'' \<and> order_id ord = 4\<close>
    using createOrder_result [of relational_service shop two_lines 5000 5003]
      onRelational_sample ok json lines amount
    by auto
  have sheet:
    \<open>\<exists>ord. fst (createOrder spreadsheet_service two_lines 5000 5003 shop) = Inr ord \<and>
      status ord = ''pending'' \<and> created_at ord = 5000 \<and>
      order_items ord = ''[{"itemId":1,"quantity":2},{"itemId":12,"quantity":-3}]'' \<and>
      readItems (order_items ord) =
        [\<lparr>line_itemId = 1, line_quantity = 2\<rparr>, \<lparr>line_itemId = 12, line_quantity = - 3\<rparr>] \<and>
      total_amount ord = parseFloat ''28.47'' \<and> order_id ord = 5003\<close>
    using createOrder_result [of spreadsheet_service shop two_lines 5000 5003]
      onSpreadsheet_sample ok sid json lines amount
    by auto
  show ?thesis
    by (intro conjI) (fact onRelational_sample ok relational onSpreadsheet_sample sid sheet)+
qed

lemma insort_key_last:
  "f x \<le> f y \<Longrightarrow> insort_key f x (zs @ [y]) = insort_key f x zs @ [y]"
  by (induction zs) auto

lemma sort_key_last:
  "\<forall>x \<in> set xs. f x < f y \<Longrightarrow> sort_key f (xs @ [y]) = sort_key f xs @ [y]"
proof (induction xs)
  case Nil
  show ?case by simp
next
  case (Cons x xs)
  then have "f x \<le> f y" and "sort_key f (xs @ [y]) = sort_key f xs @ [y]"
    by (simp_all add: less_imp_le)
  then show ?case by (simp add: insort_key_last)
qed

lemma newest_first_order_desc: "newest_first (rev (sort_key created_at rows))"
proof -
  have "sorted (map created_at (sort_key created_at rows))"
    by (rule sorted_sort_key)
  then have "sorted_wrt (\<lambda>a b. created_at a \<le> created_at b) (sort_key created_at rows)"
    by (simp add: sorted_map)
  then show ?thesis
    by (simp add: newest_first_def sorted_wrt_rev)
qed

lemma getOrdersByPhone_run:
  assumes "onRelational this" and "relational_fault w = None"
  shows "getOrdersByPhone this phone w =
           (Inr (rev (sort_key created_at (filter (\<lambda>r. customer_phone r = phone) (orders_table w)))), w)"
  using assms
  by (simp add: onRelational_def getOrdersByPhone_def order_desc_def select_eq_def caught_Inr)

lemma createOrder_run:
  assumes "onRelational this" and "relational_fault w = None"
  shows "\<exists>ord w'. createOrder this od newDate dateNow w = (Inr ord, w') \<and>
           relational_fault w' = None \<and> orders_table w' = orders_table w @ [ord] \<and>
           customer_phone ord = customerPhone od \<and> created_at ord = newDate \<and>
           total_amount ord = totalAmount od \<and> status ord = ''pending''"
  using assms
  by (simp add: onRelational_def createOrder_def insert_select_def Let_def caught_Inr
      logger_def extend_fields)

text \<open>
  C9, as stated, fails in its last part. The store holds an order of phone \<open>+1555\<close> dated
  3000. An order for the same phone is created at clock reading 2000 and the store accepts
  it. \<open>getOrdersByPhone\<close>, called in the world \<open>createOrder\<close> leaves, returns the order
  dated 3000 first, with amount 9.25, and the new order, with amount 19.98, second.
\<close>

theorem getOrdersByPhone_later_order_first:
  "onRelational relational_service \<and> relational_fault shop = None \<and>
   fst (createOrder relational_service new_order 2000 2003 shop) = Inr placed_order \<and>
   fst (getOrdersByPhone relational_service ''+1555''
          (snd (createOrder relational_service new_order 2000 2003 shop))) =
     Inr [third_order, placed_order, first_order] \<and>
   third_order \<noteq> placed_order \<and>
   total_amount third_order = parseFloat ''9.25'' \<and>
   total_amount placed_order = parseFloat ''19.98''"
proof -
  have ok: "relational_fault shop = None"
    by (simp add: shop_def)
  have made: "fst (createOrder relational_service new_order 2000 2003 shop) = Inr placed_order"
    by code_simp
  have listed: "fst (getOrdersByPhone relational_service ''+1555''
          (snd (createOrder relational_service new_order 2000 2003 shop))) =
     Inr [third_order, placed_order, first_order]"
    by code_simp
  have differ: "third_order \<noteq> placed_order"
    and amounts: "total_amount third_order = parseFloat ''9.25''"
      "total_amount placed_order = parseFloat ''19.98''"
    by (simp_all add: third_order_def placed_order_def)
  show ?thesis
    by (intro conjI) (fact onRelational_sample ok made listed differ amounts)+
qed

text \<open>
  C9, amended. On the relational adapter, when the store reports no error, for every phone
  \<open>getOrdersByPhone\<close> returns exactly the orders of the table whose \<open>customer_phone\<close> is
  that phone, each as often as the table holds it, ordered newest-first by \<open>created_at\<close>,
  and leaves the world as it was. Hence, when an order is created at a clock reading later
  than the \<open>created_at\<close> of every stored order of its phone, \<open>getOrdersByPhone\<close> for that
  phone, called in the world \<open>createOrder\<close> leaves, returns a sequence whose first element
  is the new order, with the caller's amount and status \<open>pending\<close>.
\<close>

theorem getOrdersByPhone_relational:
  assumes "onRelational this" and "relational_fault w = None"
  shows "(\<exists>rows. getOrdersByPhone this phone w = (Inr rows, w) \<and>
            mset rows = mset (filter (\<lambda>r. customer_phone r = phone) (orders_table w)) \<and>
            newest_first rows) \<and>
         ((\<forall>r \<in> set (orders_table w).
              customer_phone r = customerPhone od \<longrightarrow> created_at r < newDate) \<longrightarrow>
          (\<exists>ord rest.
              fst (createOrder this od newDate dateNow w) = Inr ord \<and>
              fst (getOrdersByPhone this (customerPhone od)
                     (snd (createOrder this od newDate dateNow w))) = Inr (ord # rest) \<and>
              total_amount ord = totalAmount od \<and> status ord = ''pending''))"
proof
  show "\<exists>rows. getOrdersByPhone this phone w = (Inr rows, w) \<and>
          mset rows = mset (filter (\<lambda>r. customer_phone r = phone) (orders_table w)) \<and>
          newest_first rows"
    by (simp add: getOrdersByPhone_run [OF assms] newest_first_order_desc)
next
  show "(\<forall>r \<in> set (orders_table w).
            customer_phone r = customerPhone od \<longrightarrow> created_at r < newDate) \<longrightarrow>
        (\<exists>ord rest.
            fst (createOrder this od newDate dateNow w) = Inr ord \<and>
            fst (getOrdersByPhone this (customerPhone od)
                   (snd (createOrder this od newDate dateNow w))) = Inr (ord # rest) \<and>
            total_amount ord = totalAmount od \<and> status ord = ''pending'')"
  proof
    assume older: "\<forall>r \<in> set (orders_table w).
        customer_phone r = customerPhone od \<longrightarrow> created_at r < newDate"
    from createOrder_run [OF assms, of od newDate dateNow] obtain ord w' where
      run: "createOrder this od newDate dateNow w = (Inr ord, w')"
      and ok: "relational_fault w' = None"
      and table: "orders_table w' = orders_table w @ [ord]"
      and phone: "customer_phone ord = customerPhone od"
      and made: "created_at ord = newDate"
      and rest: "total_amount ord = totalAmount od" "status ord = ''pending''"
      by blast
    let ?mine = "filter (\<lambda>r. customer_phone r = customerPhone od) (orders_table w)"
    have "\<forall>r \<in> set ?mine. created_at r < created_at ord"
      using older made by simp
    then have "sort_key created_at (?mine @ [ord]) = sort_key created_at ?mine @ [ord]"
      by (rule sort_key_last)
    then have "fst (getOrdersByPhone this (customerPhone od) w') =
        Inr (ord # rev (sort_key created_at ?mine))"
      by (simp add: getOrdersByPhone_run [OF assms(1) ok] table phone)
    with run rest show "\<exists>ord rest.
        fst (createOrder this od newDate dateNow w) = Inr ord \<and>
        fst (getOrdersByPhone this (customerPhone od)
               (snd (createOrder this od newDate dateNow w))) = Inr (ord # rest) \<and>
        total_amount ord = totalAmount od \<and> status ord = ''pending''"
      by simp
  qed
qed

theorem getOrdersByPhone_relational_witness:
  "onRelational relational_service \<and> relational_fault shop = None \<and>
   getOrdersByPhone relational_service ''+1555'' shop = (Inr [third_order, first_order], shop) \<and>
   (\<exists>rows. getOrdersByPhone relational_service ''+1555'' shop = (Inr rows, shop) \<and>
      mset rows = mset (filter (\<lambda>r. customer_phone r = ''+1555'') (orders_table shop)) \<and>
      newest_first rows) \<and>
   (\<exists>ord rest.
      fst (createOrder relational_service new_order 5000 5003 shop) = Inr ord \<and>
      fst (getOrdersByPhone relational_service ''+1555''
             (snd (createOrder relational_service new_order 5000 5003 shop))) = Inr (ord # rest) \<and>
      total_amount ord = parseFloat ''19.98'' \<and> status ord = ''pending'')"
proof -
  have ok: "relational_fault shop = None"
    by (simp add: shop_def)
  have run: "getOrdersByPhone relational_service ''+1555'' shop =
      (Inr [third_order, first_order], shop)"
    by code_simp
  have older: "\<forall>r \<in> set (orders_table shop).
      customer_phone r = customerPhone new_order \<longrightarrow> created_at r < 5000"
    by (simp add: shop_def first_order_def second_order_def third_order_def new_order_def)
  have od: "customerPhone new_order = ''+1555''" "totalAmount new_order = parseFloat ''19.98''"
    by (simp_all add: new_order_def)
  note inst = getOrdersByPhone_relational [OF onRelational_sample ok,
      where od = new_order and newDate = 5000 and dateNow = 5003]
  from inst [of "''+1555''"] have listed:
    "\<exists>rows. getOrdersByPhone relational_service ''+1555'' shop = (Inr rows, shop) \<and>
      mset rows = mset (filter (\<lambda>r. customer_phone r = ''+1555'') (orders_table shop)) \<and>
      newest_first rows"
    by (rule conjunct1)
  from inst [of "''+1555''"] older od have head:
    "\<exists>ord rest.
      fst (createOrder relational_service new_order 5000 5003 shop) = Inr ord \<and>
      fst (getOrdersByPhone relational_service ''+1555''
             (snd (createOrder relational_service new_order 5000 5003 shop))) = Inr (ord # rest) \<and>
      total_amount ord = parseFloat ''19.98'' \<and> status ord = ''pending''"
    by simp
  from onRelational_sample ok run listed head show ?thesis by simp
qed

end
